theory Spec2Isabelle
  imports Complex_Main
begin

section \<open>Geometries, errors and the geometry library\<close>

text \<open>
  The consolidation code of \<^verbatim>\<open>sopa/segmentation/shapes.py\<close> works on shapely geometries.
  A ring is its coordinate sequence; a polygon has an exterior ring and a list of interior
  rings (holes); \<^verbatim>\<open>Polygon()\<close>, the empty polygon, has no coordinates at all. The geometry
  types the code tests with \<^verbatim>\<open>isinstance\<close> are constructors; the non-areal types that fall
  into its last branch are \<open>LineString\<close> and \<open>Point\<close>.
\<close>

type_synonym coord = "real \<times> real"
type_synonym ring = "coord list"

datatype polygon = Polygon (exterior: ring) (interiors: "ring list")

datatype geometry =
    Poly polygon
  | MultiPolygon "polygon list"
  | GeometryCollection "geometry list"
  | LineString ring
  | Point coord

text \<open>Every \<^verbatim>\<open>raise\<close> and every failing \<^verbatim>\<open>assert\<close> of the source is a value.\<close>

datatype error =
    AssertionError string
  | ValueError string
  | IndexError
  | RuntimeError string
  | FileNotFoundError

text \<open>
  shapely and geopandas are libraries outside the repository: their operations are the
  fields of a record that every function of the model takes as its first argument.
  \<open>tree_query cells\<close> is \<^verbatim>\<open>shapely.STRtree(cells).query(cells, predicate="intersects")\<close>, the
  columns of the returned array as a list of pairs, in the order the index produced them.
\<close>

record shapely =
  make_valid :: "geometry \<Rightarrow> geometry"
  geom_area :: "geometry \<Rightarrow> real"
  geom_intersection :: "geometry \<Rightarrow> geometry \<Rightarrow> geometry"
  geom_union :: "geometry \<Rightarrow> geometry \<Rightarrow> geometry"
  tree_query :: "geometry list \<Rightarrow> (nat \<times> nat) list"
  geom_buffer :: "geometry \<Rightarrow> real \<Rightarrow> geometry"
  geom_simplify :: "geometry \<Rightarrow> real \<Rightarrow> geometry"

definition is_empty :: "polygon \<Rightarrow> bool" where
  "is_empty p \<longleftrightarrow> exterior p = []"

section \<open>Canonicalisation: \<^verbatim>\<open>_ensure_polygon\<close>\<close>

text \<open>
  Python's \<^verbatim>\<open>max(xs, key=f)\<close> returns the first element with the largest key and raises
  \<^verbatim>\<open>ValueError\<close> on an empty sequence.
\<close>

fun max_by :: "('a \<Rightarrow> real) \<Rightarrow> 'a \<Rightarrow> 'a list \<Rightarrow> 'a" where
  "max_by key best [] = best"
| "max_by key best (x # xs) = max_by key (if key best < key x then x else best) xs"

definition py_max :: "('a \<Rightarrow> real) \<Rightarrow> 'a list \<Rightarrow> error + 'a" where
  "py_max key xs =
     (case xs of
        [] \<Rightarrow> Inl (ValueError ''max() arg is an empty sequence'')
      | x # rest \<Rightarrow> Inr (max_by key x rest))"

text \<open>\<^verbatim>\<open>[geom for geom in cell.geoms if isinstance(geom, Polygon)]\<close>\<close>

fun polygon_members :: "geometry list \<Rightarrow> polygon list" where
  "polygon_members [] = []"
| "polygon_members (Poly p # gs) = p # polygon_members gs"
| "polygon_members (g # gs) = polygon_members gs"

text \<open>
  \<^verbatim>\<open>[polygon for multi_polygon in geoms for polygon in multi_polygon.geoms]\<close> over the
  members that are a \<^verbatim>\<open>MultiPolygon\<close>.
\<close>

fun multipolygon_members :: "geometry list \<Rightarrow> polygon list" where
  "multipolygon_members [] = []"
| "multipolygon_members (MultiPolygon ps # gs) = ps @ multipolygon_members gs"
| "multipolygon_members (g # gs) = multipolygon_members gs"

text \<open>
  \<^verbatim>\<open>_ensure_polygon\<close>, branch by branch. Its two \<^verbatim>\<open>log.warning\<close> calls write to the log only
  and are not part of the value it returns.
\<close>

definition ensure_polygon :: "shapely \<Rightarrow> geometry \<Rightarrow> error + polygon" where
  "ensure_polygon L cell =
     (case make_valid L cell of
        Poly p \<Rightarrow> Inr (if interiors p \<noteq> [] then Polygon (exterior p) [] else p)
      | MultiPolygon geoms \<Rightarrow> py_max (\<lambda>polygon. geom_area L (Poly polygon)) geoms
      | GeometryCollection gs \<Rightarrow>
          (let geoms = polygon_members gs in
           if geoms \<noteq> [] then py_max (\<lambda>polygon. geom_area L (Poly polygon)) geoms
           else
             (let geoms = multipolygon_members gs in
              if geoms \<noteq> [] then py_max (\<lambda>polygon. geom_area L (Poly polygon)) geoms
              else Inr (Polygon [] [])))
      | LineString r \<Rightarrow> Inr (Polygon [] [])
      | Point c \<Rightarrow> Inr (Polygon [] []))"

section \<open>Conflict resolution: \<^verbatim>\<open>solve_conflicts\<close>\<close>

text \<open>
  Lines 38 to 43: the pairs of the spatial index, without the pairs of one patch when
  \<^verbatim>\<open>patch_indices\<close> is given, without the pairs of a cell with itself otherwise. Indexing
  \<^verbatim>\<open>patch_indices\<close> out of range raises.
\<close>

definition candidate_conflicts ::
  "shapely \<Rightarrow> geometry list \<Rightarrow> int list option \<Rightarrow> error + (nat \<times> nat) list" where
  "candidate_conflicts L cells patch_indices =
     (let conflicts = tree_query L cells in
      case patch_indices of
        Some tags \<Rightarrow>
          if list_ex (\<lambda>(i1, i2). length tags \<le> i1 \<or> length tags \<le> i2) conflicts
          then Inl IndexError
          else Inr (filter (\<lambda>(i1, i2). tags ! i1 \<noteq> tags ! i2) conflicts)
      | None \<Rightarrow> Inr (filter (\<lambda>(i1, i2). i1 \<noteq> i2) conflicts))"

text \<open>The test of line 51 on two cells.\<close>

definition merge_condition :: "shapely \<Rightarrow> real \<Rightarrow> geometry \<Rightarrow> geometry \<Rightarrow> bool" where
  "merge_condition L threshold cell1 cell2 \<longleftrightarrow>
     threshold * min (geom_area L cell1) (geom_area L cell2)
       \<le> geom_area L (geom_intersection L cell1 cell2)"

text \<open>
  One iteration of the loop of lines 45 to 56 on the state \<open>(cells, resolved_indices)\<close>:
  both members are looked up through \<open>resolved_indices\<close>, and a merge appends the new cell
  and repoints every entry equal to one of the two representatives.
\<close>

definition resolve_pair ::
  "shapely \<Rightarrow> real \<Rightarrow> geometry list \<times> nat list \<Rightarrow> nat \<times> nat
     \<Rightarrow> error + (geometry list \<times> nat list)" where
  "resolve_pair L threshold st pr =
     (case (st, pr) of ((cells, resolved_indices), (i1, i2)) \<Rightarrow>
        if length resolved_indices \<le> i1 \<or> length resolved_indices \<le> i2 then Inl IndexError
        else
          (let resolved_i1 = resolved_indices ! i1;
               resolved_i2 = resolved_indices ! i2
           in if length cells \<le> resolved_i1 \<or> length cells \<le> resolved_i2 then Inl IndexError
              else
                (let cell1 = cells ! resolved_i1; cell2 = cells ! resolved_i2
                 in if merge_condition L threshold cell1 cell2 then
                      (case ensure_polygon L (geom_union L cell1 cell2) of
                         Inl e \<Rightarrow> Inl e
                       | Inr cell \<Rightarrow>
                           if is_empty cell then Inl (AssertionError ''Merged cell is empty'')
                           else Inr (cells @ [Poly cell],
                                     map (\<lambda>r. if r = resolved_i1 \<or> r = resolved_i2
                                               then length cells else r) resolved_indices))
                    else Inr (cells, resolved_indices))))"

fun resolve_loop ::
  "shapely \<Rightarrow> real \<Rightarrow> geometry list \<times> nat list \<Rightarrow> (nat \<times> nat) list
     \<Rightarrow> error + (geometry list \<times> nat list)" where
  "resolve_loop L threshold st [] = Inr st"
| "resolve_loop L threshold st (pr # prs) =
     (case resolve_pair L threshold st pr of
        Inl e \<Rightarrow> Inl e
      | Inr st' \<Rightarrow> resolve_loop L threshold st' prs)"

text \<open>
  \<^verbatim>\<open>solve_conflicts\<close>. \<^verbatim>\<open>np.unique\<close> sorts and removes duplicates; the first component of the
  result is the geometry column of \<^verbatim>\<open>unique_cells\<close>, the second is the index array when
  \<^verbatim>\<open>return_indices\<close> is set.
\<close>

definition solve_conflicts ::
  "shapely \<Rightarrow> geometry list \<Rightarrow> real \<Rightarrow> int list option \<Rightarrow> bool
     \<Rightarrow> error + (geometry list \<times> int list option)" where
  "solve_conflicts L cells0 threshold patch_indices return_indices =
     (let n_cells = length cells0;
          resolved_indices = [0..<n_cells]
      in if \<not> 0 < n_cells then Inl (AssertionError ''No cells was segmented, cannot continue'')
         else
           (case candidate_conflicts L cells0 patch_indices of
              Inl e \<Rightarrow> Inl e
            | Inr conflicts \<Rightarrow>
                (case resolve_loop L threshold (cells0, resolved_indices) conflicts of
                   Inl e \<Rightarrow> Inl e
                 | Inr (cells, resolved) \<Rightarrow>
                     (let unique_indices = sort (remdups resolved);
                          unique_cells = map (\<lambda>u. cells ! u) unique_indices
                      in Inr (unique_cells,
                              if return_indices
                              then Some (map (\<lambda>u. if u < n_cells then int u else - 1)
                                           unique_indices)
                              else None)))))"

section \<open>From a label mask to polygons: \<^verbatim>\<open>geometrize\<close>\<close>

text \<open>
  \<^verbatim>\<open>Polygon(coords)\<close> closes the ring it is given. \<^verbatim>\<open>cv2.findContours\<close> is a parameter: it
  maps a binary mask to its contours, each a list of points.
\<close>

definition close_ring :: "ring \<Rightarrow> ring" where
  "close_ring r = (if r \<noteq> [] \<and> hd r \<noteq> last r then r @ [hd r] else r)"

definition contours :: "(bool list list \<Rightarrow> ring list) \<Rightarrow> bool list list \<Rightarrow> geometry" where
  "contours findContours cell_mask =
     MultiPolygon (map (\<lambda>contour. Polygon (close_ring contour) [])
                     (filter (\<lambda>contour. 4 \<le> length contour) (findContours cell_mask)))"

definition smoothen_cell :: "shapely \<Rightarrow> geometry \<Rightarrow> real \<Rightarrow> real \<Rightarrow> error + polygon" where
  "smoothen_cell L cell smooth_radius tolerance =
     (let cell1 = geom_buffer L (geom_buffer L (geom_buffer L cell (- smooth_radius))
                                   (2 * smooth_radius)) (- smooth_radius);
          cell2 = geom_simplify L cell1 tolerance
      in ensure_polygon L cell2)"

definition default_tolerance :: "real \<Rightarrow> real" where
  "default_tolerance mean_radius =
     (if mean_radius < 10 then 0.4 else if mean_radius < 20 then 1 else 2)"

text \<open>
  The mean of a pandas series. On an empty series numpy gives \<^verbatim>\<open>nan\<close>; the model then has
  the value HOL gives to a division by zero, and no caller below reads it in that case.
\<close>

definition mean :: "real list \<Rightarrow> real" where
  "mean xs = sum_list xs / real (length xs)"

text \<open>Mapping a function that may raise over a list: the first error ends the loop.\<close>

fun map_result :: "('a \<Rightarrow> error + 'b) \<Rightarrow> 'a list \<Rightarrow> error + 'b list" where
  "map_result f [] = Inr []"
| "map_result f (x # xs) =
     (case f x of
        Inl e \<Rightarrow> Inl e
      | Inr y \<Rightarrow> (case map_result f xs of Inl e \<Rightarrow> Inl e | Inr ys \<Rightarrow> Inr (y # ys)))"

text \<open>
  What \<^verbatim>\<open>geometrize\<close> returns is a Python value: the list literal \<^verbatim>\<open>[]\<close> of line 164 is a
  \<open>PyList\<close>, the frame of line 179 a \<open>GeoDataFrame\<close>, given by its geometry column.
\<close>

datatype collection = PyList "geometry list" | GeoDataFrame "geometry list"

text \<open>
  \<^verbatim>\<open>geometrize\<close> returns the lines it logged together with its value. \<^verbatim>\<open>mask.max()\<close> raises
  on an array without elements.
\<close>

definition geometrize ::
  "shapely \<Rightarrow> (bool list list \<Rightarrow> ring list) \<Rightarrow> int list list \<Rightarrow> real option \<Rightarrow> real
     \<Rightarrow> error + (string list \<times> collection)" where
  "geometrize L findContours label_mask tolerance smooth_radius_ratio =
     (case concat label_mask of
        [] \<Rightarrow> Inl (ValueError ''zero-size array to reduction operation maximum'')
      | v # vs \<Rightarrow>
          (let max_cells = fold max vs v in
           if max_cells = 0
           then Inr ([''No cell was returned by the segmentation''], PyList [])
           else
             (let cells = map (\<lambda>cell_id. contours findContours
                                             (map (map (\<lambda>label. label = cell_id)) label_mask))
                              [1..max_cells];
                  mean_radius = mean (map (\<lambda>cell. sqrt (geom_area L cell / pi)) cells);
                  smooth_radius = mean_radius * smooth_radius_ratio;
                  tolerance' = (case tolerance of
                                  None \<Rightarrow> default_tolerance mean_radius
                                | Some t \<Rightarrow> t)
              in case map_result (\<lambda>cell. smoothen_cell L cell smooth_radius tolerance') cells of
                   Inl e \<Rightarrow> Inl e
                 | Inr smoothed \<Rightarrow>
                     Inr ([], GeoDataFrame (map Poly (filter (\<lambda>p. \<not> is_empty p) smoothed))))))"

section \<open>Growing the cells: \<^verbatim>\<open>expand_radius\<close>\<close>

text \<open>
  A \<^verbatim>\<open>GeoDataFrame\<close> is a mutable object that the caller and the callee share: the heap maps
  the reference of a frame to its geometry column, and \<^verbatim>\<open>expand_radius\<close> takes and returns
  references. \<^verbatim>\<open>not expand_radius_ratio\<close> holds for \<^verbatim>\<open>None\<close> and for zero.
\<close>

type_synonym ref = nat
type_synonym heap = "ref \<Rightarrow> geometry list"

definition falsy :: "real option \<Rightarrow> bool" where
  "falsy ratio \<longleftrightarrow> ratio = None \<or> ratio = Some 0"

definition expand_radius :: "shapely \<Rightarrow> heap \<Rightarrow> ref \<Rightarrow> real option \<Rightarrow> heap \<times> ref" where
  "expand_radius L h geo_df expand_radius_ratio =
     (if falsy expand_radius_ratio then (h, geo_df)
      else
        (let expand_radius' = the expand_radius_ratio
                                * mean (map (\<lambda>cell. sqrt (geom_area L cell / pi)) (h geo_df))
         in (h(geo_df := map (\<lambda>cell. geom_buffer L cell expand_radius') (h geo_df)), geo_df)))"

section \<open>Running Baysor on every patch: \<^verbatim>\<open>baysor\<close> and \<^verbatim>\<open>BaysorPatch\<close>\<close>

























section \<open>An instance of the library: axis-aligned rectangles\<close>

text \<open>
  The concrete runs below need a library to run on. This instance gives what shapely
  computes on axis-aligned rectangles: the area of a polygon by the shoelace formula, the
  intersection of two rectangles (the rectangle they share, the empty polygon when they
  share no area), and the union of two rectangles of one height that overlap along the
  x axis (the rectangle spanning both; a multi-polygon of the two otherwise). Valid input is
  returned as it is by \<open>make_valid\<close>, a rectangle has no vertex for \<open>simplify\<close> to
  remove, and \<open>buffer\<close> is the offset with mitred corners. The index reports the pairs with
  a common point in the order \<open>ord\<close> puts them, since shapely fixes no order.
\<close>

definition box :: "real \<Rightarrow> real \<Rightarrow> real \<Rightarrow> real \<Rightarrow> polygon" where
  "box x0 y0 x1 y1 = Polygon [(x0, y0), (x1, y0), (x1, y1), (x0, y1), (x0, y0)] []"

fun ring_bounds :: "ring \<Rightarrow> (real \<times> real \<times> real \<times> real) option" where
  "ring_bounds [] = None"
| "ring_bounds ((x, y) # r) =
     (case ring_bounds r of
        None \<Rightarrow> Some (x, y, x, y)
      | Some (x0, y0, x1, y1) \<Rightarrow> Some (min x x0, min y y0, max x x1, max y y1))"

fun shoelace :: "ring \<Rightarrow> real" where
  "shoelace ((x1, y1) # (x2, y2) # r) = (x1 * y2 - x2 * y1) + shoelace ((x2, y2) # r)"
| "shoelace r = 0"

definition polygon_area :: "polygon \<Rightarrow> real" where
  "polygon_area p =
     \<bar>shoelace (exterior p)\<bar> / 2 - sum_list (map (\<lambda>r. \<bar>shoelace r\<bar> / 2) (interiors p))"

fun box_area :: "geometry \<Rightarrow> real" where
  "box_area (Poly p) = polygon_area p"
| "box_area (MultiPolygon ps) = sum_list (map polygon_area ps)"
| "box_area (GeometryCollection gs) = sum_list (map box_area gs)"
| "box_area (LineString r) = 0"
| "box_area (Point c) = 0"

fun box_bounds :: "geometry \<Rightarrow> (real \<times> real \<times> real \<times> real) option" where
  "box_bounds (Poly p) = ring_bounds (exterior p)"
| "box_bounds g = None"

definition box_intersection :: "geometry \<Rightarrow> geometry \<Rightarrow> geometry" where
  "box_intersection a b =
     (case (box_bounds a, box_bounds b) of
        (Some (a0, b0, a1, b1), Some (c0, d0, c1, d1)) \<Rightarrow>
          if max a0 c0 < min a1 c1 \<and> max b0 d0 < min b1 d1
          then Poly (box (max a0 c0) (max b0 d0) (min a1 c1) (min b1 d1))
          else Poly (Polygon [] [])
      | _ \<Rightarrow> Poly (Polygon [] []))"

fun polygons_in :: "geometry \<Rightarrow> polygon list" where
  "polygons_in (Poly p) = [p]"
| "polygons_in (MultiPolygon ps) = ps"
| "polygons_in g = []"

definition box_union :: "geometry \<Rightarrow> geometry \<Rightarrow> geometry" where
  "box_union a b =
     (case (box_bounds a, box_bounds b) of
        (Some (a0, b0, a1, b1), Some (c0, d0, c1, d1)) \<Rightarrow>
          if b0 = d0 \<and> b1 = d1 \<and> max a0 c0 \<le> min a1 c1
          then Poly (box (min a0 c0) b0 (max a1 c1) b1)
          else MultiPolygon (polygons_in a @ polygons_in b)
      | _ \<Rightarrow> MultiPolygon (polygons_in a @ polygons_in b))"

definition box_intersects :: "geometry \<Rightarrow> geometry \<Rightarrow> bool" where
  "box_intersects a b =
     (case (box_bounds a, box_bounds b) of
        (Some (a0, b0, a1, b1), Some (c0, d0, c1, d1)) \<Rightarrow>
          max a0 c0 \<le> min a1 c1 \<and> max b0 d0 \<le> min b1 d1
      | _ \<Rightarrow> False)"

definition box_query :: "geometry list \<Rightarrow> (nat \<times> nat) list" where
  "box_query cells =
     concat (map (\<lambda>i. map (\<lambda>j. (i, j))
                         (filter (\<lambda>j. box_intersects (cells ! i) (cells ! j)) [0..<length cells]))
               [0..<length cells])"

definition box_buffer :: "geometry \<Rightarrow> real \<Rightarrow> geometry" where
  "box_buffer a d =
     (case box_bounds a of
        Some (a0, b0, a1, b1) \<Rightarrow> Poly (box (a0 - d) (b0 - d) (a1 + d) (b1 + d))
      | None \<Rightarrow> a)"

definition box_lib :: "((nat \<times> nat) list \<Rightarrow> (nat \<times> nat) list) \<Rightarrow> shapely" where
  "box_lib ord =
     \<lparr>make_valid = (\<lambda>g. g),
      geom_area = box_area,
      geom_intersection = box_intersection,
      geom_union = box_union,
      tree_query = (\<lambda>cells. ord (box_query cells)),
      geom_buffer = box_buffer,
      geom_simplify = (\<lambda>g tolerance. g)\<rparr>"

section \<open>Auxiliary notions for the proofs\<close>

text \<open>
  How the state of the loop relates to the state it started from: the list of cells has only
  grown, by non-empty polygons; the index array keeps its length; and its entries stay
  indices of the cell list.
\<close>

definition grown :: "geometry list \<Rightarrow> nat list \<Rightarrow> geometry list \<Rightarrow> nat list \<Rightarrow> bool" where
  "grown cs rs cs' rs' \<longleftrightarrow>
     (\<exists>new. cs' = cs @ map Poly new \<and> (\<forall>p \<in> set new. \<not> is_empty p))
     \<and> length rs' = length rs
     \<and> ((\<forall>r \<in> set rs. r < length cs) \<longrightarrow> (\<forall>r \<in> set rs'. r < length cs'))"

text \<open>A square with a square hole, as the exterior ring and one interior ring.\<close>

definition holed_square :: polygon where
  "holed_square =
     Polygon [(0, 0), (10, 0), (10, 10), (0, 10), (0, 0)]
             [[(4, 4), (4, 6), (6, 6), (6, 4), (4, 4)]]"

text \<open>A heap in which every reference holds a frame of one unit square.\<close>

definition one_square_heap :: heap where
  "one_square_heap = (\<lambda>r. [Poly (box 0 0 1 1)])"





section \<open>The loop of \<^verbatim>\<open>solve_conflicts\<close>\<close>

lemma map_fixed_iff: "map f xs = xs \<longleftrightarrow> (\<forall>x \<in> set xs. f x = x)"
  by (induction xs) auto

lemma resolve_pair_cases:
  assumes "resolve_pair L threshold (cs, rs) pr = Inr (cs', rs')"
  shows "(cs' = cs \<and> rs' = rs) \<or>
         (\<exists>p r1 r2. \<not> is_empty p \<and> cs' = cs @ [Poly p]
            \<and> rs' = map (\<lambda>r. if r = r1 \<or> r = r2 then length cs else r) rs)"
  using assms
  by (cases pr) (auto simp: resolve_pair_def Let_def split: if_splits sum.splits)

lemma grown_refl: "grown cs rs cs rs"
  unfolding grown_def by (intro conjI exI [of _ "[]"]) auto

lemma resolve_pair_grown:
  assumes "resolve_pair L threshold (cs, rs) pr = Inr (cs', rs')"
  shows "grown cs rs cs' rs'"
proof -
  from resolve_pair_cases [OF assms] show ?thesis
  proof
    assume "cs' = cs \<and> rs' = rs"
    then show ?thesis by (simp add: grown_refl)
  next
    assume "\<exists>p r1 r2. \<not> is_empty p \<and> cs' = cs @ [Poly p]
            \<and> rs' = map (\<lambda>r. if r = r1 \<or> r = r2 then length cs else r) rs"
    then obtain p r1 r2 where p: "\<not> is_empty p" "cs' = cs @ map Poly [p]"
      and rs': "rs' = map (\<lambda>r. if r = r1 \<or> r = r2 then length cs else r) rs"
      by auto
    have "\<forall>q \<in> set [p]. \<not> is_empty q" using p by simp
    moreover have "length rs' = length rs" using rs' by simp
    moreover have "(\<forall>r \<in> set rs. r < length cs) \<longrightarrow> (\<forall>r \<in> set rs'. r < length cs')"
      using rs' p(2) by auto
    ultimately show ?thesis unfolding grown_def using p(2) by blast
  qed
qed

lemma grown_trans:
  assumes "grown cs rs cs' rs'" and "grown cs' rs' cs'' rs''"
  shows "grown cs rs cs'' rs''"
proof -
  from assms(1) obtain new where n1: "cs' = cs @ map Poly new" "\<forall>p \<in> set new. \<not> is_empty p"
    unfolding grown_def by blast
  from assms(2) obtain new' where n2: "cs'' = cs' @ map Poly new'" "\<forall>p \<in> set new'. \<not> is_empty p"
    unfolding grown_def by blast
  have "cs'' = cs @ map Poly (new @ new')" using n1 n2 by simp
  moreover have "\<forall>p \<in> set (new @ new'). \<not> is_empty p" using n1 n2 by auto
  ultimately have "\<exists>new. cs'' = cs @ map Poly new \<and> (\<forall>p \<in> set new. \<not> is_empty p)" by blast
  then show ?thesis using assms unfolding grown_def by simp
qed

lemma resolve_loop_grown:
  "resolve_loop L threshold (cs, rs) ps = Inr (cs', rs') \<Longrightarrow> grown cs rs cs' rs'"
proof (induction ps arbitrary: cs rs)
  case Nil
  then show ?case by (simp add: grown_refl)
next
  case (Cons pr ps)
  then obtain cs1 rs1 where s1: "resolve_pair L threshold (cs, rs) pr = Inr (cs1, rs1)"
    and rest: "resolve_loop L threshold (cs1, rs1) ps = Inr (cs', rs')"
    by (auto split: sum.splits)
  from resolve_pair_grown [OF s1] Cons.IH [OF rest] show ?case by (rule grown_trans)
qed

lemma resolve_loop_append:
  "resolve_loop L threshold st (xs @ ys) =
     (case resolve_loop L threshold st xs of
        Inl e \<Rightarrow> Inl e
      | Inr st' \<Rightarrow> resolve_loop L threshold st' ys)"
  by (induction xs arbitrary: st) (auto split: sum.splits)


section \<open>Runs on rectangles\<close>

lemmas box_eval =
  solve_conflicts_def candidate_conflicts_def resolve_pair_def merge_condition_def
  ensure_polygon_def py_max_def is_empty_def Let_def
  box_lib_def box_query_def box_intersects_def box_intersection_def box_union_def
  box_buffer_def box_def polygon_area_def



section \<open>Claims on conflict resolution, canonicalisation and the geometry functions\<close>




text \<open>
  C3. Called on an empty collection, \<^verbatim>\<open>solve_conflicts\<close> fails, whatever the threshold, the
  patch indices and \<^verbatim>\<open>return_indices\<close> are: the assertion on \<^verbatim>\<open>n_cells\<close> raises before
  anything else is computed, so no result is returned.
\<close>

theorem solve_conflicts_empty_fails:
  "solve_conflicts L [] threshold patch_indices return_indices
     = Inl (AssertionError ''No cells was segmented, cannot continue'')"
  by (simp add: solve_conflicts_def)

text \<open>
  C4, at the input where the code leaves it: a valid multi-polygon whose largest member has a
  hole. \<^verbatim>\<open>_ensure_polygon\<close> returns that member as it is, with its interior ring, where the
  branch for a single polygon would have dropped the ring.
\<close>

theorem ensure_polygon_keeps_holes:
  "ensure_polygon (box_lib id) (MultiPolygon [holed_square, box 20 0 21 1]) = Inr holed_square
   \<and> interiors holed_square \<noteq> []"
  by (simp add: box_eval holed_square_def)

text \<open>
  C5, at the same input: the first call returns the member with its hole, and a second call
  on that result takes the branch for a single polygon and drops the hole, so the two calls do
  not give what one call gives.
\<close>

theorem ensure_polygon_not_idempotent:
  "ensure_polygon (box_lib id) (MultiPolygon [holed_square, box 20 0 21 1]) = Inr holed_square
   \<and> ensure_polygon (box_lib id) (Poly holed_square) = Inr (box 0 0 10 10)
   \<and> holed_square \<noteq> box 0 0 10 10"
  by (simp add: box_eval holed_square_def)

text \<open>
  C6. Let the candidate pairs be \<open>pre\<close>, then \<open>(i1, i2)\<close>, then \<open>post\<close>, and let the loop
  reach the state \<open>(cs, rs)\<close> after \<open>pre\<close>. If the two current representatives of the pair
  meet the merge condition and the canonicalised union of the two is empty, then
  \<^verbatim>\<open>solve_conflicts\<close> fails with the assertion error of line 53: the merged cell is not dropped
  and the loop does not go on.
\<close>

theorem merged_cell_empty_fails:
  assumes "candidate_conflicts L cells patch_indices = Inr (pre @ (i1, i2) # post)"
    and "resolve_loop L threshold (cells, [0..<length cells]) pre = Inr (cs, rs)"
    and "i1 < length cells" and "i2 < length cells"
    and "merge_condition L threshold (cs ! (rs ! i1)) (cs ! (rs ! i2))"
    and "ensure_polygon L (geom_union L (cs ! (rs ! i1)) (cs ! (rs ! i2))) = Inr p"
    and "is_empty p"
  shows "solve_conflicts L cells threshold patch_indices return_indices
           = Inl (AssertionError ''Merged cell is empty'')"
proof -
  from resolve_loop_grown [OF assms(2)] have len: "length rs = length cells"
    and bound: "\<forall>r \<in> set rs. r < length cs"
    unfolding grown_def by auto
  have i: "i1 < length rs" "i2 < length rs" using assms(3,4) len by simp_all
  then have r: "rs ! i1 < length cs" "rs ! i2 < length cs" using bound by simp_all
  have step: "resolve_pair L threshold (cs, rs) (i1, i2) = Inl (AssertionError ''Merged cell is empty'')"
    using i r assms(5,6,7) by (simp add: resolve_pair_def Let_def)
  have "resolve_loop L threshold (cells, [0..<length cells]) (pre @ (i1, i2) # post)
          = Inl (AssertionError ''Merged cell is empty'')"
    by (simp add: resolve_loop_append assms(2) step)
  moreover have "cells \<noteq> []" using assms(3) by auto
  ultimately show ?thesis using assms(1) by (simp add: solve_conflicts_def)
qed

text \<open>
  A run of C6: on a library whose union of two squares is a point, the first pair of the two
  overlapping squares meets the merge condition and its canonicalised union is empty.
\<close>

theorem merged_cell_empty_fails_witness:
  "solve_conflicts ((box_lib id)\<lparr>geom_union := (\<lambda>a b. Point (0, 0))\<rparr>)
     [Poly (box 0 0 10 10), Poly (box 4 0 14 10)] (1 / 2) None False
   = Inl (AssertionError ''Merged cell is empty'')"
  using merged_cell_empty_fails
    [of "(box_lib id)\<lparr>geom_union := (\<lambda>a b. Point (0, 0))\<rparr>"
        "[Poly (box 0 0 10 10), Poly (box 4 0 14 10)]" None "[]" 0 1 "[(1, 0)]" "1 / 2"
        "[Poly (box 0 0 10 10), Poly (box 4 0 14 10)]" "[0, 1]" "Polygon [] []" False]
  by (simp add: box_eval)

text \<open>
  C7, at a mask without a positive label: \<^verbatim>\<open>geometrize\<close> logs its warning and returns the
  Python list \<^verbatim>\<open>[]\<close>, which is not a \<^verbatim>\<open>GeoDataFrame\<close>, the kind of value it returns for a mask
  with cells and the one its signature announces.
\<close>

theorem geometrize_no_cells:
  "geometrize L findContours [[0, 0], [0, 0]] tolerance smooth_radius_ratio
     = Inr ([''No cell was returned by the segmentation''], PyList [])
   \<and> PyList [] \<noteq> GeoDataFrame []"
  by (simp add: geometrize_def)

text \<open>
  C8. With a ratio that is \<^verbatim>\<open>None\<close> or zero, \<^verbatim>\<open>expand_radius\<close> returns the heap and the
  frame it was given, unchanged. With any other ratio \<open>r\<close>, positive ones among them, it returns
  the frame it was given, and the geometry column of the returned frame is the old one with
  every cell buffered by one and the same distance: \<open>r\<close> times the sum of \<open>sqrt (area / pi)\<close>
  over all the cells, divided by their number.
\<close>

theorem expand_radius_pooled:
  "(falsy ratio \<longrightarrow> expand_radius L h geo_df ratio = (h, geo_df))
   \<and> (ratio = Some r \<and> r \<noteq> 0 \<longrightarrow>
        snd (expand_radius L h geo_df ratio) = geo_df
        \<and> fst (expand_radius L h geo_df ratio) (snd (expand_radius L h geo_df ratio))
            = map (\<lambda>cell. geom_buffer L cell
                     (r * (sum_list (map (\<lambda>c. sqrt (geom_area L c / pi)) (h geo_df))
                            / real (length (h geo_df)))))
                (h geo_df))"
  by (simp add: expand_radius_def falsy_def mean_def)

theorem expand_radius_pooled_witness:
  "falsy None
   \<and> expand_radius (box_lib id) one_square_heap 0 None = (one_square_heap, 0)
   \<and> snd (expand_radius (box_lib id) one_square_heap 0 (Some 2)) = 0
   \<and> fst (expand_radius (box_lib id) one_square_heap 0 (Some 2))
         (snd (expand_radius (box_lib id) one_square_heap 0 (Some 2)))
       = [box_buffer (Poly (box 0 0 1 1)) (2 * sqrt (1 / pi))]"
proof -
  have f: "falsy None" and r: "Some 2 = Some (2 :: real) \<and> (2 :: real) \<noteq> 0"
    by (simp_all add: falsy_def)
  from expand_radius_pooled [of None "box_lib id" one_square_heap 0 2] f
  have a: "expand_radius (box_lib id) one_square_heap 0 None = (one_square_heap, 0)" by blast
  from expand_radius_pooled [of "Some 2" "box_lib id" one_square_heap 0 2] r
  have b: "snd (expand_radius (box_lib id) one_square_heap 0 (Some 2)) = 0"
    and c: "fst (expand_radius (box_lib id) one_square_heap 0 (Some 2))
              (snd (expand_radius (box_lib id) one_square_heap 0 (Some 2)))
            = map (\<lambda>cell. geom_buffer (box_lib id) cell
                     (2 * (sum_list (map (\<lambda>c. sqrt (geom_area (box_lib id) c / pi))
                                       (one_square_heap 0))
                            / real (length (one_square_heap 0)))))
                (one_square_heap 0)"
    by blast+
  have "map (\<lambda>cell. geom_buffer (box_lib id) cell
               (2 * (sum_list (map (\<lambda>c. sqrt (geom_area (box_lib id) c / pi))
                                 (one_square_heap 0))
                      / real (length (one_square_heap 0)))))
          (one_square_heap 0)
        = [box_buffer (Poly (box 0 0 1 1)) (2 * sqrt (1 / pi))]"
    by (simp add: one_square_heap_def box_lib_def box_def polygon_area_def)
  with f a b c show ?thesis by simp
qed

text \<open>
  C10. With a truthy ratio, \<^verbatim>\<open>expand_radius\<close> returns the reference it was given, and the
  frame behind that reference now holds the buffered cells: the caller, who holds the same
  reference, no longer sees the original geometries as soon as the buffer changes one of
  them. No other frame of the heap is touched.
\<close>

theorem expand_radius_in_place:
  assumes "\<not> falsy ratio"
  shows "snd (expand_radius L h geo_df ratio) = geo_df
     \<and> fst (expand_radius L h geo_df ratio) geo_df
         = map (\<lambda>cell. geom_buffer L cell
                  (the ratio * mean (map (\<lambda>c. sqrt (geom_area L c / pi)) (h geo_df))))
             (h geo_df)
     \<and> (\<forall>other. other \<noteq> geo_df \<longrightarrow> fst (expand_radius L h geo_df ratio) other = h other)
     \<and> ((\<exists>cell \<in> set (h geo_df). geom_buffer L cell
                  (the ratio * mean (map (\<lambda>c. sqrt (geom_area L c / pi)) (h geo_df))) \<noteq> cell)
          \<longrightarrow> fst (expand_radius L h geo_df ratio) geo_df \<noteq> h geo_df)"
proof -
  define d where "d = the ratio * mean (map (\<lambda>c. sqrt (geom_area L c / pi)) (h geo_df))"
  have e: "expand_radius L h geo_df ratio
             = (h(geo_df := map (\<lambda>cell. geom_buffer L cell d) (h geo_df)), geo_df)"
    using assms by (simp add: expand_radius_def d_def)
  show ?thesis
    unfolding e d_def [symmetric] by (simp add: map_fixed_iff)
qed

theorem expand_radius_in_place_witness:
  "\<not> falsy (Some 2)
   \<and> snd (expand_radius (box_lib id) one_square_heap 0 (Some 2)) = 0
   \<and> fst (expand_radius (box_lib id) one_square_heap 0 (Some 2)) 0 \<noteq> one_square_heap 0
   \<and> fst (expand_radius (box_lib id) one_square_heap 0 (Some 2)) 1 = one_square_heap 1"
  using expand_radius_in_place [of "Some 2" "box_lib id" one_square_heap 0]
  by (simp add: falsy_def one_square_heap_def box_lib_def box_def polygon_area_def mean_def
        box_buffer_def)



section \<open>The batch of patches\<close>














section \<open>A chain of three cells\<close>















end
